theory Spec2Isabelle
  imports Main
begin

section \<open>Strings and numbers\<close>

text \<open>
  Text is a \<^typ>\<open>string\<close> holding the UTF-8 bytes of the JavaScript string; the literals
  of the source that are written in Japanese are spelled out byte by byte.  JavaScript
  numbers are taken as integers (identifiers, priorities, status values, HTTP status codes
  and array lengths are integral in every use the source makes of them).
\<close>

definition decimal_digit :: "nat \<Rightarrow> char" where
  "decimal_digit d = (''0123456789'' ! (d mod 10))"

text \<open>What a template literal prints for a non-negative integer: its decimal digits.\<close>

fun string_of_nat :: "nat \<Rightarrow> string" where
  "string_of_nat n =
     (if n < 10 then [decimal_digit n]
      else string_of_nat (n div 10) @ [decimal_digit n])"

declare string_of_nat.simps [simp del]

text \<open>Reading a decimal numeral back.\<close>

definition decimal_value :: "string \<Rightarrow> nat" where
  "decimal_value s = foldl (\<lambda>a c. 10 * a + (of_char c - 48)) 0 s"

definition string_of_int :: "int \<Rightarrow> string" where
  "string_of_int i = (if i < 0 then ''-'' @ string_of_nat (nat (- i)) else string_of_nat (nat i))"

text \<open>\<^verbatim>\<open>a ?? b\<close>: the left operand unless it is absent.\<close>

definition nullish_coalesce :: "'a option \<Rightarrow> 'a \<Rightarrow> 'a" where
  "nullish_coalesce v d = (case v of None \<Rightarrow> d | Some x \<Rightarrow> x)"

section \<open>Data model\<close>

text \<open>
  \<^verbatim>\<open>interface Task\<close>.  The server declares \<^verbatim>\<open>Priority\<close> and \<^verbatim>\<open>Status\<close> optional, the
  UI script declares them required, so the record is polymorphic in the type of the two:
  \<^typ>\<open>int option\<close> on the server, \<^typ>\<open>int\<close> in the UI.  The fields without \<^verbatim>\<open>Id\<close> are
  \<^verbatim>\<open>Omit<Task, "Id">\<close>, the argument of \<^verbatim>\<open>createTask\<close>.
\<close>

record 'n task_fields =
  Title :: string
  Description :: string
  Priority :: 'n
  DueDate :: string
  Status :: 'n

record 'n task = "'n task_fields" +
  Id' :: int

type_synonym server_task = "int option task"

text \<open>
  A thrown value: an instance of \<^verbatim>\<open>Error\<close> with its message, or any other value with
  what \<^verbatim>\<open>String(e)\<close> gives for it.
\<close>

datatype js_exn = Error string | NonError string

text \<open>JSON documents, as far as a request body needs them.\<close>

datatype json = JString string | JNumber int | JObject "(string \<times> json) list"

text \<open>
  What \<^verbatim>\<open>res.json()\<close> yields.  The casts \<^verbatim>\<open>as Task[]\<close> and \<^verbatim>\<open>as Task\<close> are unchecked,
  so either endpoint may answer with either shape.
\<close>

datatype json_payload = TaskArray "server_task list" | TaskObject server_task

record request =
  url :: string
  http_method :: string
  headers :: "(string \<times> string) list"
  body :: "json option"

text \<open>
  A \<^verbatim>\<open>Response\<close>: the status line and the outcome of reading the body as text and as
  JSON (a promise that rejects is \<open>Inl\<close>).
\<close>

record response =
  status :: nat
  statusText :: string
  text_result :: "js_exn + string"
  json_result :: "js_exn + json_payload"

text \<open>\<^verbatim>\<open>res.ok\<close> is true exactly for the status codes 200 to 299 (Fetch standard).\<close>

definition ok :: "response \<Rightarrow> bool" where
  "ok res = (200 \<le> status res \<and> status res \<le> 299)"

record 'ts task_result =
  tasks :: 'ts
  error :: "string option"

datatype content_block = TextContent string

text \<open>\<^verbatim>\<open>CallToolResult\<close>; \<^verbatim>\<open>structuredContent\<close> and \<^verbatim>\<open>isError\<close> are optional.\<close>

record 'ts call_tool_result =
  content :: "content_block list"
  structuredContent :: "'ts task_result option"
  isError :: "bool option"

section \<open>Asynchronous calls against the outside world\<close>

text \<open>
  An \<^verbatim>\<open>async\<close> computation runs against a world \<open>'w\<close> (the remote service and the
  network) and settles: it throws (\<open>Inl\<close>) or returns (\<open>Inr\<close>), and leaves a new world.
  Every awaited promise is taken to settle.
\<close>

type_synonym ('a, 'w) io = "'w \<Rightarrow> (js_exn + 'a) \<times> 'w"

type_synonym 'w fetch_fn = "request \<Rightarrow> (response, 'w) io"

definition io_return :: "'a \<Rightarrow> ('a, 'w) io" where
  "io_return a w = (Inr a, w)"

definition io_throw :: "js_exn \<Rightarrow> ('a, 'w) io" where
  "io_throw e w = (Inl e, w)"

text \<open>Awaiting a promise of the response that has its outcome already.\<close>

definition io_settled :: "js_exn + 'a \<Rightarrow> ('a, 'w) io" where
  "io_settled r w = (r, w)"

text \<open>\<^verbatim>\<open>const a = await m; k(a)\<close>: a rejection of \<open>m\<close> is thrown on.\<close>

definition io_await :: "('a, 'w) io \<Rightarrow> ('a \<Rightarrow> ('b, 'w) io) \<Rightarrow> ('b, 'w) io" where
  "io_await m k w = (case m w of (Inl e, w') \<Rightarrow> (Inl e, w') | (Inr a, w') \<Rightarrow> k a w')"

text \<open>\<^verbatim>\<open>try { block } catch (e) { handler(e) }\<close>.\<close>

definition try_catch :: "('a, 'w) io \<Rightarrow> (js_exn \<Rightarrow> ('a, 'w) io) \<Rightarrow> ('a, 'w) io" where
  "try_catch block handler w =
     (case block w of (Inl e, w') \<Rightarrow> handler e w' | (Inr a, w') \<Rightarrow> (Inr a, w'))"

text \<open>\<^verbatim>\<open>promise.catch(() => d)\<close>.\<close>

definition promise_catch :: "js_exn + 'a \<Rightarrow> 'a \<Rightarrow> js_exn + 'a" where
  "promise_catch p d = (case p of Inl e \<Rightarrow> Inr d | Inr a \<Rightarrow> Inr a)"

section \<open>Task client\<close>

definition default_api_base :: string where
  "default_api_base = ''https://xxx.outsystems.app/TaskManagementAPI/rest/Mcp''"

text \<open>\<^verbatim>\<open>process.env.TASK_API_BASE || "https://..."\<close>: unset and empty both fall back.\<close>

definition TASK_API_BASE :: "string option \<Rightarrow> string" where
  "TASK_API_BASE env_value =
     (case env_value of
        None \<Rightarrow> default_api_base
      | Some s \<Rightarrow> if s \<noteq> [] then s else default_api_base)"

text \<open>The message of the error that both client calls throw on a response that is not ok.\<close>

definition failed_message :: "string \<Rightarrow> response \<Rightarrow> string \<Rightarrow> string" where
  "failed_message name res errorDetail =
     name @ '' failed: '' @ string_of_nat (status res) @ '' '' @ statusText res
       @ (if errorDetail \<noteq> [] then '' - '' @ errorDetail else [])"

text \<open>\<^verbatim>\<open>{...task, Priority: task.Priority ?? 0, Status: task.Status ?? 0}\<close>\<close>

definition fill_defaults :: "server_task \<Rightarrow> server_task" where
  "fill_defaults task =
     task\<lparr>Priority := Some (nullish_coalesce (Priority task) 0),
          Status := Some (nullish_coalesce (Status task) 0)\<rparr>"

definition get_tasks_request :: "string \<Rightarrow> request" where
  "get_tasks_request base =
     \<lparr>url = base @ ''/GetTasks'', http_method = ''GET'', headers = [], body = None\<rparr>"

definition fetchTasks :: "'w fetch_fn \<Rightarrow> string \<Rightarrow> (server_task list, 'w) io" where
  "fetchTasks fetch base =
     io_await (fetch (get_tasks_request base)) (\<lambda>res.
       if \<not> ok res then
         io_await (io_settled (promise_catch (text_result res) [])) (\<lambda>errorDetail.
           io_throw (Error (failed_message ''GetTasks'' res errorDetail)))
       else
         io_await (io_settled (json_result res)) (\<lambda>data.
           case data of
             TaskArray ts \<Rightarrow> io_return (map fill_defaults ts)
           | TaskObject t \<Rightarrow> io_throw (Error ''data.map is not a function'')))"

text \<open>
  \<^verbatim>\<open>JSON.stringify({ Task: task })\<close> as a document: the keys in the order of the object
  literal, a property that is \<^verbatim>\<open>undefined\<close> left out.
\<close>

definition optional_number :: "string \<Rightarrow> int option \<Rightarrow> (string \<times> json) list" where
  "optional_number key v = (case v of None \<Rightarrow> [] | Some n \<Rightarrow> [(key, JNumber n)])"

definition task_json :: "int option task_fields \<Rightarrow> json" where
  "task_json task =
     JObject ([(''Title'', JString (Title task)), (''Description'', JString (Description task))]
       @ optional_number ''Priority'' (Priority task)
       @ [(''DueDate'', JString (DueDate task))]
       @ optional_number ''Status'' (Status task))"

definition create_task_request :: "string \<Rightarrow> int option task_fields \<Rightarrow> request" where
  "create_task_request base task =
     \<lparr>url = base @ ''/CreateTask'', http_method = ''POST'',
      headers = [(''Content-Type'', ''application/json'')],
      body = Some (JObject [(''Task'', task_json task)])\<rparr>"

definition createTask :: "'w fetch_fn \<Rightarrow> string \<Rightarrow> int option task_fields \<Rightarrow> (json_payload, 'w) io"
  where
  "createTask fetch base task =
     io_await (fetch (create_task_request base task)) (\<lambda>res.
       if \<not> ok res then
         io_await (io_settled (promise_catch (text_result res) [])) (\<lambda>errorDetail.
           io_throw (Error (failed_message ''CreateTask'' res errorDetail)))
       else
         io_await (io_settled (json_result res)) (\<lambda>data. io_return data))"

section \<open>Tool layer\<close>

definition count_suffix :: string where
  \<comment> \<open>the text after the count, a space and then "tasks were shown in the UI."\<close>
  "count_suffix =
     [CHR 0x20, CHR 0xE4, CHR 0xBB, CHR 0xB6, CHR 0xE3, CHR 0x81, CHR 0xAE, CHR 0xE3, CHR 0x82,
      CHR 0xBF, CHR 0xE3, CHR 0x82, CHR 0xB9, CHR 0xE3, CHR 0x82, CHR 0xAF, CHR 0xE3, CHR 0x82,
      CHR 0x92, CHR 0x20, CHR 0x55, CHR 0x49, CHR 0x20, CHR 0xE3, CHR 0x81, CHR 0xAB, CHR 0xE8,
      CHR 0xA1, CHR 0xA8, CHR 0xE7, CHR 0xA4, CHR 0xBA, CHR 0xE3, CHR 0x81, CHR 0x97, CHR 0xE3,
      CHR 0x81, CHR 0xBE, CHR 0xE3, CHR 0x81, CHR 0x97, CHR 0xE3, CHR 0x81, CHR 0x9F, CHR 0xE3,
      CHR 0x80, CHR 0x82]"

definition error_prefix :: string where
  \<comment> \<open>"Error: "\<close>
  "error_prefix =
     [CHR 0xE3, CHR 0x82, CHR 0xA8, CHR 0xE3, CHR 0x83, CHR 0xA9, CHR 0xE3, CHR 0x83, CHR 0xBC,
      CHR 0x3A, CHR 0x20]"

definition added_prefix :: string where
  \<comment> \<open>"Task" and an opening double quote\<close>
  "added_prefix =
     [CHR 0xE3, CHR 0x82, CHR 0xBF, CHR 0xE3, CHR 0x82, CHR 0xB9, CHR 0xE3, CHR 0x82, CHR 0xAF,
      CHR 0x20, CHR 0x22]"

definition added_suffix :: string where
  \<comment> \<open>the closing double quote and "was added."\<close>
  "added_suffix =
     [CHR 0x22, CHR 0x20, CHR 0xE3, CHR 0x82, CHR 0x92, CHR 0xE8, CHR 0xBF, CHR 0xBD, CHR 0xE5,
      CHR 0x8A, CHR 0xA0, CHR 0xE3, CHR 0x81, CHR 0x97, CHR 0xE3, CHR 0x81, CHR 0xBE, CHR 0xE3,
      CHR 0x81, CHR 0x97, CHR 0xE3, CHR 0x81, CHR 0x9F, CHR 0xE3, CHR 0x80, CHR 0x82]"

text \<open>\<^verbatim>\<open>e instanceof Error ? e.message : String(e)\<close>\<close>

definition error_message :: "js_exn \<Rightarrow> string" where
  "error_message e = (case e of Error m \<Rightarrow> m | NonError s \<Rightarrow> s)"

text \<open>The \<^verbatim>\<open>catch\<close> block that both handlers share word for word.\<close>

definition error_result :: "js_exn \<Rightarrow> (server_task list) call_tool_result" where
  "error_result e =
     (let msg = error_message e in
      \<lparr>content = [TextContent (error_prefix @ msg)],
       structuredContent = Some \<lparr>tasks = [], error = Some msg\<rparr>,
       isError = None\<rparr>)"

definition list_tasks_handler ::
  "'w fetch_fn \<Rightarrow> string \<Rightarrow> ((server_task list) call_tool_result, 'w) io" where
  "list_tasks_handler fetch base =
     try_catch
       (io_await (fetchTasks fetch base) (\<lambda>tasks'.
          io_return
            \<lparr>content = [TextContent (string_of_nat (length tasks') @ count_suffix)],
             structuredContent = Some \<lparr>tasks = tasks', error = None\<rparr>,
             isError = None\<rparr>))
       (\<lambda>e. io_return (error_result e))"

definition add_task_handler ::
  "'w fetch_fn \<Rightarrow> string \<Rightarrow> string \<Rightarrow> string \<Rightarrow> string
     \<Rightarrow> ((server_task list) call_tool_result, 'w) io" where
  "add_task_handler fetch base Title' Description' DueDate' =
     try_catch
       (io_await
          (createTask fetch base
             \<lparr>Title = Title', Description = Description', Priority = Some 1,
              DueDate = DueDate', Status = Some 0\<rparr>) (\<lambda>created.
        io_await (fetchTasks fetch base) (\<lambda>tasks'.
          io_return
            \<lparr>content = [TextContent (added_prefix @ Title' @ added_suffix)],
             structuredContent = Some \<lparr>tasks = tasks', error = None\<rparr>,
             isError = None\<rparr>)))
       (\<lambda>e. io_return (error_result e))"

section \<open>UI controller\<close>

subsection \<open>Literals\<close>

definition label_not_started :: string where
  \<comment> \<open>"not started"\<close>
  "label_not_started =
     [CHR 0xE6, CHR 0x9C, CHR 0xAA, CHR 0xE7, CHR 0x9D, CHR 0x80, CHR 0xE6, CHR 0x89, CHR 0x8B]"

definition label_done :: string where
  \<comment> \<open>"done"\<close>
  "label_done = [CHR 0xE5, CHR 0xAE, CHR 0x8C, CHR 0xE4, CHR 0xBA, CHR 0x86]"

definition msg_error_occurred :: string where
  \<comment> \<open>"An error occurred"\<close>
  "msg_error_occurred =
     [CHR 0xE3, CHR 0x82, CHR 0xA8, CHR 0xE3, CHR 0x83, CHR 0xA9, CHR 0xE3, CHR 0x83, CHR 0xBC,
      CHR 0xE3, CHR 0x81, CHR 0x8C, CHR 0xE7, CHR 0x99, CHR 0xBA, CHR 0xE7, CHR 0x94, CHR 0x9F,
      CHR 0xE3, CHR 0x81, CHR 0x97, CHR 0xE3, CHR 0x81, CHR 0xBE, CHR 0xE3, CHR 0x81, CHR 0x97,
      CHR 0xE3, CHR 0x81, CHR 0x9F]"

definition msg_adding :: string where
  \<comment> \<open>"Adding..."\<close>
  "msg_adding =
     [CHR 0xE8, CHR 0xBF, CHR 0xBD, CHR 0xE5, CHR 0x8A, CHR 0xA0, CHR 0xE4, CHR 0xB8, CHR 0xAD,
      CHR 0x2E, CHR 0x2E, CHR 0x2E]"

definition msg_added :: string where
  \<comment> \<open>"Added!"\<close>
  "msg_added =
     [CHR 0xE8, CHR 0xBF, CHR 0xBD, CHR 0xE5, CHR 0x8A, CHR 0xA0, CHR 0xE3, CHR 0x81, CHR 0x97,
      CHR 0xE3, CHR 0x81, CHR 0xBE, CHR 0xE3, CHR 0x81, CHR 0x97, CHR 0xE3, CHR 0x81, CHR 0x9F,
      CHR 0xEF, CHR 0xBC, CHR 0x81]"

definition msg_add_failed :: string where
  \<comment> \<open>"Failed to add"\<close>
  "msg_add_failed =
     [CHR 0xE8, CHR 0xBF, CHR 0xBD, CHR 0xE5, CHR 0x8A, CHR 0xA0, CHR 0xE3, CHR 0x81, CHR 0xAB,
      CHR 0xE5, CHR 0xA4, CHR 0xB1, CHR 0xE6, CHR 0x95, CHR 0x97, CHR 0xE3, CHR 0x81, CHR 0x97,
      CHR 0xE3, CHR 0x81, CHR 0xBE, CHR 0xE3, CHR 0x81, CHR 0x97, CHR 0xE3, CHR 0x81, CHR 0x9F]"

definition count_unit :: string where
  \<comment> \<open>a space and the counter word for items\<close>
  "count_unit = [CHR 0x20, CHR 0xE4, CHR 0xBB, CHR 0xB6]"

definition empty_text :: string where
  \<comment> \<open>"There are no tasks yet. Please add one with the form above."\<close>
  "empty_text =
     [CHR 0xE3, CHR 0x82, CHR 0xBF, CHR 0xE3, CHR 0x82, CHR 0xB9, CHR 0xE3, CHR 0x82, CHR 0xAF,
      CHR 0xE3, CHR 0x81, CHR 0xAF, CHR 0xE3, CHR 0x81, CHR 0xBE, CHR 0xE3, CHR 0x81, CHR 0xA0,
      CHR 0xE3, CHR 0x81, CHR 0x82, CHR 0xE3, CHR 0x82, CHR 0x8A, CHR 0xE3, CHR 0x81, CHR 0xBE,
      CHR 0xE3, CHR 0x81, CHR 0x9B, CHR 0xE3, CHR 0x82, CHR 0x93, CHR 0xE3, CHR 0x80, CHR 0x82,
      CHR 0xE4, CHR 0xB8, CHR 0x8A, CHR 0xE3, CHR 0x81, CHR 0xAE, CHR 0xE3, CHR 0x83, CHR 0x95,
      CHR 0xE3, CHR 0x82, CHR 0xA9, CHR 0xE3, CHR 0x83, CHR 0xBC, CHR 0xE3, CHR 0x83, CHR 0xA0,
      CHR 0xE3, CHR 0x81, CHR 0x8B, CHR 0xE3, CHR 0x82, CHR 0x89, CHR 0xE8, CHR 0xBF, CHR 0xBD,
      CHR 0xE5, CHR 0x8A, CHR 0xA0, CHR 0xE3, CHR 0x81, CHR 0x97, CHR 0xE3, CHR 0x81, CHR 0xA6,
      CHR 0xE3, CHR 0x81, CHR 0x8F, CHR 0xE3, CHR 0x81, CHR 0xA0, CHR 0xE3, CHR 0x81, CHR 0x95,
      CHR 0xE3, CHR 0x81, CHR 0x84, CHR 0xE3, CHR 0x80, CHR 0x82]"

definition due_label :: string where
  \<comment> \<open>"Due: "\<close>
  "due_label = [CHR 0xE6, CHR 0x9C, CHR 0x9F, CHR 0xE9, CHR 0x99, CHR 0x90, CHR 0x3A, CHR 0x20]"

definition newline :: string where
  "newline = [CHR 0x0A]"

subsection \<open>The page and the browser\<close>

type_synonym ui_task = "int task"

text \<open>
  The elements the script holds, with the properties it reads and writes, and the
  callbacks that \<^verbatim>\<open>setTimeout\<close> has pending (each hides the status line; the number is
  its delay in milliseconds).
\<close>

record dom =
  taskListEl_innerHTML :: string
  countEl_textContent :: string
  statusEl_textContent :: string
  statusEl_style_display :: string
  titleInput_value :: string
  descInput_value :: string
  dateInput_value :: string
  timeouts :: "nat list"

text \<open>
  What the script asks of \<^verbatim>\<open>Date\<close>: the locale rendering of a date,
  \<^verbatim>\<open>new Date(v).toISOString()\<close> (a \<^verbatim>\<open>RangeError\<close> on an invalid date) and
  \<^verbatim>\<open>new Date().toISOString()\<close>.
\<close>

record browser =
  toLocaleDateString_jaJP :: "string \<Rightarrow> string"
  Date_toISOString :: "string \<Rightarrow> js_exn + string"
  now_toISOString :: string

record tool_call =
  name :: string
  arguments :: "(string \<times> string) list"

subsection \<open>Helpers\<close>

definition STATUS_LABELS :: "int \<rightharpoonup> string" where
  "STATUS_LABELS = [0 \<mapsto> label_not_started, 1 \<mapsto> label_done]"

text \<open>
  \<^verbatim>\<open>escapeHtml\<close> reads back the markup of a text node: the serialisation replaces
  \<^verbatim>\<open>&\<close>, \<^verbatim>\<open><\<close>, \<^verbatim>\<open>>\<close> and the no-break space (bytes C2 A0).
\<close>

definition escape_char :: "char \<Rightarrow> string" where
  "escape_char c =
     (if c = CHR ''&'' then ''&amp;''
      else if c = CHR ''<'' then ''&lt;''
      else if c = CHR ''>'' then ''&gt;''
      else [c])"

fun escapeHtml :: "string \<Rightarrow> string" where
  "escapeHtml [] = []"
| "escapeHtml [c] = escape_char c"
| "escapeHtml (c # d # cs) =
     (if c = CHR 0xC2 \<and> d = CHR 0xA0 then ''&nbsp;'' @ escapeHtml cs
      else escape_char c @ escapeHtml (d # cs))"

definition formatDate :: "browser \<Rightarrow> string \<Rightarrow> string" where
  "formatDate env iso' = (if iso' = [] then [] else toLocaleDateString_jaJP env iso')"

definition showStatus :: "string \<Rightarrow> dom \<Rightarrow> dom" where
  "showStatus message d =
     d\<lparr>statusEl_textContent := message,
       statusEl_style_display := ''block'',
       timeouts := timeouts d @ [2000]\<rparr>"

text \<open>The oldest pending callback runs: \<^verbatim>\<open>statusEl.style.display = "none"\<close>.\<close>

definition timeout_fires :: "dom \<Rightarrow> dom" where
  "timeout_fires d =
     (case timeouts d of
        [] \<Rightarrow> d
      | t # ts \<Rightarrow> d\<lparr>statusEl_style_display := ''none'', timeouts := ts\<rparr>)"

text \<open>
  \<^verbatim>\<open>String.prototype.trim\<close>: white space and line terminators go from both ends.
  In UTF-8 they are one, two or three bytes long.
\<close>

definition is_ws1 :: "char \<Rightarrow> bool" where
  "is_ws1 a = (a = CHR 0x09 \<or> a = CHR 0x0A \<or> a = CHR 0x0B \<or> a = CHR 0x0C \<or> a = CHR 0x0D
               \<or> a = CHR 0x20)"

definition is_ws2 :: "char \<Rightarrow> char \<Rightarrow> bool" where
  "is_ws2 a b = (a = CHR 0xC2 \<and> b = CHR 0xA0)"

definition is_ws3 :: "char \<Rightarrow> char \<Rightarrow> char \<Rightarrow> bool" where
  "is_ws3 a b c =
     ((a = CHR 0xE1 \<and> b = CHR 0x9A \<and> c = CHR 0x80)
      \<or> (a = CHR 0xE2 \<and> b = CHR 0x80
          \<and> ((0x80 \<le> (of_char c :: nat) \<and> (of_char c :: nat) \<le> 0x8A)
              \<or> c = CHR 0xA8 \<or> c = CHR 0xA9 \<or> c = CHR 0xAF))
      \<or> (a = CHR 0xE2 \<and> b = CHR 0x81 \<and> c = CHR 0x9F)
      \<or> (a = CHR 0xE3 \<and> b = CHR 0x80 \<and> c = CHR 0x80)
      \<or> (a = CHR 0xEF \<and> b = CHR 0xBB \<and> c = CHR 0xBF))"

text \<open>
  Stripping from the front; with \<open>backwards\<close> the list is a reversed string, and the
  bytes of a character come in the opposite order.
\<close>

fun strip_ws :: "bool \<Rightarrow> string \<Rightarrow> string" where
  "strip_ws backwards [] = []"
| "strip_ws backwards [a] = (if is_ws1 a then [] else [a])"
| "strip_ws backwards [a, b] =
     (if is_ws1 a then strip_ws backwards [b]
      else if (if backwards then is_ws2 b a else is_ws2 a b) then []
      else [a, b])"
| "strip_ws backwards (a # b # c # s) =
     (if is_ws1 a then strip_ws backwards (b # c # s)
      else if (if backwards then is_ws2 b a else is_ws2 a b) then strip_ws backwards (c # s)
      else if (if backwards then is_ws3 c b a else is_ws3 a b c) then strip_ws backwards s
      else a # b # c # s)"

definition trim :: "string \<Rightarrow> string" where
  "trim s = rev (strip_ws True (rev (strip_ws False s)))"

subsection \<open>Rendering\<close>

definition render_task :: "browser \<Rightarrow> ui_task \<Rightarrow> string" where
  \<open>render_task env t =
     newline @ ''      <div class="task-item">''
     @ newline @ ''        <div class="task-header">''
     @ newline @ ''          <span class="task-title">'' @ escapeHtml (Title t) @ ''</span>''
     @ newline @ ''          <span class="badge status-'' @ string_of_int (Status t) @ ''">''
         @ nullish_coalesce (STATUS_LABELS (Status t)) (string_of_int (Status t)) @ ''</span>''
     @ newline @ ''        </div>''
     @ newline @ ''        ''
         @ (if Description t \<noteq> []
            then ''<div class="task-desc">'' @ escapeHtml (Description t) @ ''</div>'' else [])
     @ newline @ ''        ''
         @ (if DueDate t \<noteq> []
            then ''<div class="task-date">'' @ due_label @ formatDate env (DueDate t) @ ''</div>''
            else [])
     @ newline @ ''      </div>''
     @ newline @ ''    ''\<close>

definition empty_placeholder :: string where
  \<open>empty_placeholder = ''<div class="empty">'' @ empty_text @ ''</div>''\<close>

definition renderTasks :: "browser \<Rightarrow> ui_task list \<Rightarrow> dom \<Rightarrow> dom" where
  "renderTasks env ts d =
     (let d1 = d\<lparr>countEl_textContent := string_of_nat (length ts) @ count_unit\<rparr> in
      if length ts = 0 then
        d1\<lparr>taskListEl_innerHTML := empty_placeholder\<rparr>
      else
        d1\<lparr>taskListEl_innerHTML := concat (map (render_task env) ts)\<rparr>)"

subsection \<open>Tool results and submission\<close>

type_synonym ui_result = "(ui_task list option) call_tool_result"

text \<open>Truthiness of an optional boolean and of an optional string.\<close>

definition truthy_bool :: "bool option \<Rightarrow> bool" where
  "truthy_bool b = (case b of None \<Rightarrow> False | Some v \<Rightarrow> v)"

definition truthy_string :: "string option \<Rightarrow> bool" where
  "truthy_string v = (case v of None \<Rightarrow> False | Some s \<Rightarrow> s \<noteq> [])"

text \<open>
  The payload is cast from \<^verbatim>\<open>unknown\<close>: it may be missing (\<^verbatim>\<open>data?.\<close>), and so may its
  list of tasks; \<^verbatim>\<open>error\<close> is a string or \<^verbatim>\<open>null\<close>.  An array is truthy even when empty.
\<close>

text \<open>What a template literal prints for a string or \<^verbatim>\<open>null\<close>.\<close>

definition template_text :: "string option \<Rightarrow> string" where
  "template_text v = (case v of None \<Rightarrow> ''null'' | Some s \<Rightarrow> s)"

definition handleToolResult :: "browser \<Rightarrow> ui_result \<Rightarrow> dom \<Rightarrow> dom" where
  "handleToolResult env result d =
     (if truthy_bool (isError result) then showStatus msg_error_occurred d
      else
        let data = structuredContent result in
        if truthy_string (Option.bind data error) then
          showStatus (error_prefix @ template_text (Option.bind data error)) d
        else
          (case Option.bind data tasks of
             Some ts \<Rightarrow> (renderTasks env ts d)\<lparr>statusEl_style_display := ''none''\<rparr>
           | None \<Rightarrow> d))"

text \<open>
  \<^verbatim>\<open>addTask\<close> up to its \<^verbatim>\<open>await\<close>: it returns early, or the conversion of the date
  throws, or it leaves a call of the server tool pending.
\<close>

datatype add_task_step = Returned | Rejected js_exn | Awaiting tool_call

definition addTask :: "browser \<Rightarrow> dom \<Rightarrow> dom \<times> add_task_step" where
  "addTask env d =
     (let Title' = trim (titleInput_value d) in
      if Title' = [] then (d, Returned)
      else
        let Description' = trim (descInput_value d) in
        case (if dateInput_value d \<noteq> [] then Date_toISOString env (dateInput_value d)
              else Inr (now_toISOString env)) of
          Inl e \<Rightarrow> (d, Rejected e)
        | Inr DueDate' \<Rightarrow>
            (showStatus msg_adding
               (d\<lparr>titleInput_value := [], descInput_value := [], dateInput_value := []\<rparr>),
             Awaiting
               \<lparr>name = ''add-task'',
                arguments = [(''Title'', Title'), (''Description'', Description'),
                             (''DueDate'', DueDate')]\<rparr>))"

text \<open>\<^verbatim>\<open>addTask\<close> after the call has settled: the rest of the \<^verbatim>\<open>try\<close>, or the \<^verbatim>\<open>catch\<close>.\<close>

definition addTask_settled :: "browser \<Rightarrow> js_exn + ui_result \<Rightarrow> dom \<Rightarrow> dom" where
  "addTask_settled env outcome d =
     (case outcome of
        Inr result \<Rightarrow> showStatus msg_added (handleToolResult env result d)
      | Inl e \<Rightarrow> showStatus msg_add_failed d)"


section \<open>Properties of tasks\<close>

text \<open>A task has \<^verbatim>\<open>Priority\<close> and \<^verbatim>\<open>Status\<close> populated when neither is absent.\<close>

definition populated :: "server_task \<Rightarrow> bool" where
  "populated t = (Priority t \<noteq> None \<and> Status t \<noteq> None)"

text \<open>
  What the error message ends with: the body of the response after a dash, when it could
  be read and is not empty.
\<close>

definition error_detail :: "response \<Rightarrow> string" where
  "error_detail res = (case text_result res of Inl e \<Rightarrow> [] | Inr b \<Rightarrow> if b \<noteq> [] then '' - '' @ b else [])"

section \<open>Example data\<close>

text \<open>
  A stand-in for the network: the world is the list of the outcomes that the next calls
  of \<^verbatim>\<open>fetch\<close> will have, whatever is requested.
\<close>

fun scripted_fetch :: "(js_exn + response) list fetch_fn" where
  "scripted_fetch req [] = (Inl (Error ''fetch failed''), [])"
| "scripted_fetch req (outcome # rest) = (outcome, rest)"

definition example_base :: string where
  "example_base = TASK_API_BASE None"

definition ok_response :: "json_payload \<Rightarrow> response" where
  "ok_response payload =
     \<lparr>status = 200, statusText = ''OK'', text_result = Inr [], json_result = Inr payload\<rparr>"

definition db_down :: response where
  "db_down =
     \<lparr>status = 500, statusText = ''Internal Server Error'', text_result = Inr ''db down'',
      json_result = Inl (Error ''Unexpected token d in JSON at position 0'')\<rparr>"

definition unreadable :: response where
  "unreadable =
     \<lparr>status = 503, statusText = ''Service Unavailable'',
      text_result = Inl (Error ''terminated''), json_result = Inl (Error ''terminated'')\<rparr>"

definition buy_milk :: server_task where
  "buy_milk =
     \<lparr>Title = ''Buy milk'', Description = [], Priority = None,
      DueDate = ''2024-01-01T00:00:00Z'', Status = None, Id' = 1\<rparr>"

definition walk_dog :: server_task where
  "walk_dog =
     \<lparr>Title = ''Walk dog'', Description = ''twice'', Priority = Some 2,
      DueDate = ''2024-01-03T00:00:00Z'', Status = Some 1, Id' = 2\<rparr>"

definition test_task :: server_task where
  "test_task =
     \<lparr>Title = ''Test'', Description = [], Priority = Some 1,
      DueDate = ''2024-02-02T00:00:00Z'', Status = Some 0, Id' = 7\<rparr>"

definition example_browser :: browser where
  "example_browser =
     \<lparr>toLocaleDateString_jaJP = take 10,
      Date_toISOString = (\<lambda>v. if v = [] then Inl (Error ''Invalid time value'')
                                else Inr (v @ ''T00:00:00.000Z'')),
      now_toISOString = ''2024-02-02T09:30:00.000Z''\<rparr>"

definition shown_task :: ui_task where
  "shown_task =
     \<lparr>Title = ''Buy milk'', Description = [], Priority = 0,
      DueDate = ''2024-01-01T00:00:00Z'', Status = 0, Id' = 1\<rparr>"

definition add_form :: dom where
  "add_form =
     \<lparr>taskListEl_innerHTML = empty_placeholder, countEl_textContent = ''0'' @ count_unit,
      statusEl_textContent = [], statusEl_style_display = ''none'',
      titleInput_value = '' Test '', descInput_value = [], dateInput_value = [],
      timeouts = []\<rparr>"

definition example_page :: dom where
  "example_page =
     \<lparr>taskListEl_innerHTML = ''<p>old</p>'', countEl_textContent = ''old count'',
      statusEl_textContent = [], statusEl_style_display = ''none'',
      titleInput_value = [CHR 0x20, CHR 0xE3, CHR 0x80, CHR 0x80, CHR 0x09],
      descInput_value = ''notes'', dateInput_value = ''2024-03-01'', timeouts = []\<rparr>"

section \<open>Basic facts\<close>

subsection \<open>Decimal numerals\<close>

lemma decimal_digit_code: "of_char (decimal_digit d) = (48 + d mod 10 :: nat)"
proof -
  have "d mod 10 = 0 \<or> d mod 10 = 1 \<or> d mod 10 = 2 \<or> d mod 10 = 3 \<or> d mod 10 = 4
      \<or> d mod 10 = 5 \<or> d mod 10 = 6 \<or> d mod 10 = 7 \<or> d mod 10 = 8 \<or> d mod 10 = 9"
    by arith
  then show ?thesis
    unfolding decimal_digit_def by (elim disjE) simp_all
qed

lemma decimal_value_snoc: "decimal_value (s @ [c]) = 10 * decimal_value s + (of_char c - 48)"
  by (simp add: decimal_value_def)

lemma decimal_value_string_of_nat: "decimal_value (string_of_nat n) = n"
proof (induction n rule: string_of_nat.induct)
  case (1 n)
  show ?case
  proof (cases "n < 10")
    case True
    then show ?thesis
      by (simp add: string_of_nat.simps [of n] decimal_value_def decimal_digit_code)
  next
    case False
    with 1 show ?thesis
      by (simp add: string_of_nat.simps [of n] decimal_value_snoc decimal_digit_code)
  qed
qed

subsection \<open>Sequencing\<close>

lemma io_await_Inl: "m w = (Inl e, w') \<Longrightarrow> io_await m k w = (Inl e, w')"
  by (simp add: io_await_def)

lemma io_await_Inr: "m w = (Inr a, w') \<Longrightarrow> io_await m k w = k a w'"
  by (simp add: io_await_def)

lemma try_catch_Inl: "block w = (Inl e, w') \<Longrightarrow> try_catch block handler w = handler e w'"
  by (simp add: try_catch_def)

lemma try_catch_Inr: "block w = (Inr a, w') \<Longrightarrow> try_catch block handler w = (Inr a, w')"
  by (simp add: try_catch_def)

lemma io_settled_await:
  "io_await (io_settled r) k w = (case r of Inl e \<Rightarrow> (Inl e, w) | Inr a \<Rightarrow> k a w)"
  by (simp add: io_await_def io_settled_def)

lemma fetchTasks_rejected:
  "fetch (get_tasks_request base) w = (Inl e, w') \<Longrightarrow> fetchTasks fetch base w = (Inl e, w')"
  unfolding fetchTasks_def by (rule io_await_Inl)

lemma fetchTasks_not_ok:
  assumes "fetch (get_tasks_request base) w = (Inr res, w')" and "\<not> ok res"
  shows "fetchTasks fetch base w =
           (Inl (Error (failed_message ''GetTasks'' res
                   (case text_result res of Inl e \<Rightarrow> [] | Inr b \<Rightarrow> b))), w')"
  unfolding fetchTasks_def io_await_Inr [where m = "fetch (get_tasks_request base)", OF assms(1)]
  using assms(2)
  by (simp add: io_settled_await promise_catch_def io_throw_def split: sum.split)

lemma fetchTasks_ok:
  assumes "fetch (get_tasks_request base) w = (Inr res, w')" and "ok res"
  shows "fetchTasks fetch base w =
           (case json_result res of
              Inl e \<Rightarrow> (Inl e, w')
            | Inr (TaskArray ws) \<Rightarrow> (Inr (map fill_defaults ws), w')
            | Inr (TaskObject t) \<Rightarrow> (Inl (Error ''data.map is not a function''), w'))"
  unfolding fetchTasks_def io_await_Inr [where m = "fetch (get_tasks_request base)", OF assms(1)]
  using assms(2)
  by (simp add: io_settled_await io_throw_def io_return_def split: sum.split json_payload.split)

lemma fetchTasks_returns:
  assumes "fetchTasks fetch base w = (Inr ts, w')"
  shows "\<exists>res ws. fetch (get_tasks_request base) w = (Inr res, w') \<and> ok res
           \<and> json_result res = Inr (TaskArray ws) \<and> ts = map fill_defaults ws"
proof (cases "fetch (get_tasks_request base) w")
  case (Pair outcome w1)
  show ?thesis
  proof (cases outcome)
    case (Inl e)
    with Pair assms show ?thesis by (simp add: fetchTasks_rejected)
  next
    case (Inr res)
    show ?thesis
    proof (cases "ok res")
      case False
      with Pair Inr assms show ?thesis by (simp add: fetchTasks_not_ok)
    next
      case True
      with Pair Inr assms show ?thesis
        by (simp add: fetchTasks_ok split: sum.splits json_payload.splits)
    qed
  qed
qed

lemma createTask_rejected:
  "fetch (create_task_request base task) w = (Inl e, w') \<Longrightarrow>
   createTask fetch base task w = (Inl e, w')"
  unfolding createTask_def by (rule io_await_Inl)

lemma createTask_not_ok:
  assumes "fetch (create_task_request base task) w = (Inr res, w')" and "\<not> ok res"
  shows "createTask fetch base task w =
           (Inl (Error (failed_message ''CreateTask'' res
                   (case text_result res of Inl e \<Rightarrow> [] | Inr b \<Rightarrow> b))), w')"
  unfolding createTask_def io_await_Inr [where m = "fetch (create_task_request base task)", OF assms(1)]
  using assms(2)
  by (simp add: io_settled_await promise_catch_def io_throw_def split: sum.split)

lemma createTask_ok:
  assumes "fetch (create_task_request base task) w = (Inr res, w')" and "ok res"
  shows "createTask fetch base task w = (json_result res, w')"
  unfolding createTask_def io_await_Inr [where m = "fetch (create_task_request base task)", OF assms(1)]
  using assms(2)
  by (simp add: io_settled_await io_return_def split: sum.split)

lemma list_tasks_handler_Inl:
  "fetchTasks fetch base w = (Inl e, w') \<Longrightarrow>
   list_tasks_handler fetch base w = (Inr (error_result e), w')"
  unfolding list_tasks_handler_def
  by (simp add: try_catch_Inl [OF io_await_Inl] io_return_def)

lemma list_tasks_handler_Inr:
  "fetchTasks fetch base w = (Inr ts, w') \<Longrightarrow>
   list_tasks_handler fetch base w =
     (Inr \<lparr>content = [TextContent (string_of_nat (length ts) @ count_suffix)],
           structuredContent = Some \<lparr>tasks = ts, error = None\<rparr>,
           isError = None\<rparr>, w')"
  unfolding list_tasks_handler_def
  by (rule try_catch_Inr) (simp add: io_await_Inr io_return_def)

lemma add_task_handler_create_fails:
  "createTask fetch base \<lparr>Title = t, Description = d, Priority = Some 1, DueDate = dd, Status = Some 0\<rparr> w = (Inl e, w') \<Longrightarrow>
   add_task_handler fetch base t d dd w = (Inr (error_result e), w')"
  unfolding add_task_handler_def
  by (simp add: try_catch_Inl [OF io_await_Inl] io_return_def)

lemma add_task_handler_refetch_fails:
  assumes "createTask fetch base \<lparr>Title = t, Description = d, Priority = Some 1, DueDate = dd, Status = Some 0\<rparr> w = (Inr c, w1)"
    and "fetchTasks fetch base w1 = (Inl e, w2)"
  shows "add_task_handler fetch base t d dd w = (Inr (error_result e), w2)"
  unfolding add_task_handler_def
  by (simp add: try_catch_Inl [where e = e and w' = w2] io_await_Inr [where m = "createTask fetch base X" for X, OF assms(1)]
      io_await_Inl [where m = "fetchTasks fetch base", OF assms(2)] io_return_def)

lemma add_task_handler_succeeds:
  assumes "createTask fetch base \<lparr>Title = t, Description = d, Priority = Some 1, DueDate = dd, Status = Some 0\<rparr> w = (Inr c, w1)"
    and "fetchTasks fetch base w1 = (Inr ts, w2)"
  shows "add_task_handler fetch base t d dd w =
     (Inr \<lparr>content = [TextContent (added_prefix @ t @ added_suffix)],
           structuredContent = Some \<lparr>tasks = ts, error = None\<rparr>,
           isError = None\<rparr>, w2)"
  unfolding add_task_handler_def
  by (rule try_catch_Inr)
     (simp add: io_await_Inr [where m = "createTask fetch base X" for X, OF assms(1)]
        io_await_Inr [where m = "fetchTasks fetch base", OF assms(2)] io_return_def)


lemma error_result_fields:
  "structuredContent (error_result e) = Some \<lparr>tasks = [], error = Some (error_message e)\<rparr>"
  "content (error_result e) = [TextContent (error_prefix @ error_message e)]"
  "isError (error_result e) = None"
  by (simp_all add: error_result_def Let_def)

lemma fill_defaults_fields:
  "Id' (fill_defaults t) = Id' t" "Title (fill_defaults t) = Title t"
  "Description (fill_defaults t) = Description t" "DueDate (fill_defaults t) = DueDate t"
  "Priority (fill_defaults t) = Some (case Priority t of None \<Rightarrow> 0 | Some p \<Rightarrow> p)"
  "Status (fill_defaults t) = Some (case Status t of None \<Rightarrow> 0 | Some p \<Rightarrow> p)"
  by (simp_all add: fill_defaults_def nullish_coalesce_def)


lemma populated_fill_defaults: "list_all populated (map fill_defaults ws)"
  by (induction ws) (simp_all add: populated_def fill_defaults_fields)

lemma fetchTasks_populated:
  "fetchTasks fetch base w = (Inr ts, w') \<Longrightarrow> list_all populated ts"
  using fetchTasks_returns [of fetch base w ts w'] populated_fill_defaults by auto

lemma string_of_nat_500: "string_of_nat 500 = ''500''"
  by code_simp

lemma string_of_nat_503: "string_of_nat 503 = ''503''"
  by code_simp

lemma scripted_fetch_db_down:
  "fetchTasks scripted_fetch b (Inr db_down # rest)
     = (Inl (Error ''GetTasks failed: 500 Internal Server Error - db down''), rest)"
  by (simp add: fetchTasks_not_ok [where res = db_down] ok_def db_down_def failed_message_def
      string_of_nat_500)

lemma scripted_fetch_ok_array:
  "fetchTasks scripted_fetch b (Inr (ok_response (TaskArray ws)) # rest) = (Inr (map fill_defaults ws), rest)"
  by (simp add: fetchTasks_ok [where res = "ok_response (TaskArray ws)"] ok_def ok_response_def)

lemma add_task_handler_surfaces_populated:
  "(case fst (add_task_handler fetch base t d dd w) of Inl e \<Rightarrow> False | Inr r \<Rightarrow>
     (case structuredContent r of None \<Rightarrow> False | Some sc \<Rightarrow> list_all populated (tasks sc)))"
proof -
  let ?task = "\<lparr>Title = t, Description = d, Priority = Some 1, DueDate = dd, Status = Some 0\<rparr>"
  obtain r1 w1 where c: "createTask fetch base ?task w = (r1, w1)"
    by (cases "createTask fetch base ?task w")
  obtain r2 w2 where f: "fetchTasks fetch base w1 = (r2, w2)" by (cases "fetchTasks fetch base w1")
  show ?thesis
  proof (cases r1)
    case (Inl e)
    with c show ?thesis by (simp add: add_task_handler_create_fails error_result_fields)
  next
    case created: (Inr created)
    show ?thesis
    proof (cases r2)
      case (Inl e)
      with c f created show ?thesis
        by (simp add: add_task_handler_refetch_fails error_result_fields)
    next
      case (Inr ts)
      with c f created fetchTasks_populated [of fetch base w1 ts w2] show ?thesis
        by (simp add: add_task_handler_succeeds)
    qed
  qed
qed

lemma failed_message_detail:
  "failed_message n res (case text_result res of Inl e \<Rightarrow> [] | Inr b \<Rightarrow> b)
     = n @ '' failed: '' @ string_of_nat (status res) @ '' '' @ statusText res @ error_detail res"
  by (simp add: failed_message_def error_detail_def split: sum.split)

lemma create_task_request_new:
  "create_task_request base
     \<lparr>Title = t, Description = d, Priority = Some 1, DueDate = dd, Status = Some 0\<rparr>
   = \<lparr>url = base @ ''/CreateTask'', http_method = ''POST'',
      headers = [(''Content-Type'', ''application/json'')],
      body = Some (JObject [(''Task'',
               JObject [(''Title'', JString t), (''Description'', JString d),
                        (''Priority'', JNumber 1), (''DueDate'', JString dd),
                        (''Status'', JNumber 0)])])\<rparr>"
  by (simp add: create_task_request_def task_json_def optional_number_def)

lemma list_ex_title_fill_defaults:
  "list_ex (\<lambda>x. Title x = t) (map fill_defaults ws) = list_ex (\<lambda>x. Title x = t) ws"
  by (induction ws) (simp_all add: fill_defaults_fields)

subsection \<open>The page\<close>

lemma showStatus_fields:
  "taskListEl_innerHTML (showStatus m d) = taskListEl_innerHTML d"
  "countEl_textContent (showStatus m d) = countEl_textContent d"
  "statusEl_textContent (showStatus m d) = m"
  "statusEl_style_display (showStatus m d) = ''block''"
  "timeouts (showStatus m d) = timeouts d @ [2000]"
  by (simp_all add: showStatus_def)

lemma renderTasks_eq:
  "renderTasks env ts d =
     d\<lparr>countEl_textContent := string_of_nat (length ts) @ count_unit,
       taskListEl_innerHTML :=
         (if ts = [] then empty_placeholder else concat (map (render_task env) ts))\<rparr>"
  by (simp add: renderTasks_def Let_def)

lemma handleToolResult_isError:
  "truthy_bool (isError result) \<Longrightarrow>
   handleToolResult env result d = showStatus msg_error_occurred d"
  by (simp add: handleToolResult_def)

lemma handleToolResult_error:
  "\<not> truthy_bool (isError result) \<Longrightarrow>
   truthy_string (Option.bind (structuredContent result) error) \<Longrightarrow>
   handleToolResult env result d =
     showStatus (error_prefix @ template_text (Option.bind (structuredContent result) error)) d"
  by (simp add: handleToolResult_def Let_def)

lemma handleToolResult_no_error:
  "\<not> truthy_bool (isError result) \<Longrightarrow>
   \<not> truthy_string (Option.bind (structuredContent result) error) \<Longrightarrow>
   handleToolResult env result d =
     (case Option.bind (structuredContent result) tasks of
        Some ts \<Rightarrow> (renderTasks env ts d)\<lparr>statusEl_style_display := ''none''\<rparr>
      | None \<Rightarrow> d)"
  by (simp add: handleToolResult_def Let_def)

text \<open>A title that is not blank is submitted: inputs cleared, status shown, tool called.\<close>

lemma addTask_submits_example:
  "addTask example_browser add_form =
     (add_form\<lparr>titleInput_value := [], descInput_value := [], dateInput_value := [],
               statusEl_textContent := msg_adding, statusEl_style_display := ''block'',
               timeouts := [2000]\<rparr>,
      Awaiting \<lparr>name = ''add-task'',
                arguments = [(''Title'', ''Test''), (''Description'', []),
                             (''DueDate'', ''2024-02-02T09:30:00.000Z'')]\<rparr>)"
  by (simp add: addTask_def Let_def add_form_def trim_def is_ws1_def is_ws2_def is_ws3_def
      showStatus_def example_browser_def)

section \<open>The tool handlers always return\<close>

text \<open>
  C1.  The handlers of \<^verbatim>\<open>list-tasks\<close> and \<^verbatim>\<open>add-task\<close> never throw: whatever the network
  does, each returns a result, and the result has a structured content with a list of tasks
  and an error field.  When the call of the task client fails (\<^verbatim>\<open>fetchTasks\<close>, or
  \<^verbatim>\<open>createTask\<close>, or \<^verbatim>\<open>fetchTasks\<close> after \<^verbatim>\<open>createTask\<close>), the list is empty and the error
  field holds the message of what was thrown; when it succeeds, the list is the fetched one
  and the error field is \<^verbatim>\<open>null\<close>.
\<close>

theorem handlers_never_throw:
  "(\<exists>r sc. fst (list_tasks_handler fetch base w) = Inr r \<and> structuredContent r = Some sc \<and>
      (case fst (fetchTasks fetch base w) of
         Inl e \<Rightarrow> tasks sc = [] \<and> error sc = Some (error_message e)
       | Inr ts \<Rightarrow> tasks sc = ts \<and> error sc = None))
   \<and> (\<exists>r sc. fst (add_task_handler fetch base t d dd w) = Inr r \<and> structuredContent r = Some sc \<and>
      (case createTask fetch base
              \<lparr>Title = t, Description = d, Priority = Some 1, DueDate = dd, Status = Some 0\<rparr> w of
         (Inl e, w1) \<Rightarrow> tasks sc = [] \<and> error sc = Some (error_message e)
       | (Inr created, w1) \<Rightarrow>
           (case fst (fetchTasks fetch base w1) of
              Inl e \<Rightarrow> tasks sc = [] \<and> error sc = Some (error_message e)
            | Inr ts \<Rightarrow> tasks sc = ts \<and> error sc = None)))"
proof
  obtain r1 w1 where f: "fetchTasks fetch base w = (r1, w1)" by (cases "fetchTasks fetch base w")
  show "\<exists>r sc. fst (list_tasks_handler fetch base w) = Inr r \<and> structuredContent r = Some sc \<and>
      (case fst (fetchTasks fetch base w) of
         Inl e \<Rightarrow> tasks sc = [] \<and> error sc = Some (error_message e)
       | Inr ts \<Rightarrow> tasks sc = ts \<and> error sc = None)"
  proof (cases r1)
    case (Inl e)
    with f show ?thesis by (simp add: list_tasks_handler_Inl error_result_fields)
  next
    case (Inr ts)
    with f show ?thesis by (simp add: list_tasks_handler_Inr)
  qed
next
  let ?task = "\<lparr>Title = t, Description = d, Priority = Some 1, DueDate = dd, Status = Some 0\<rparr>"
  obtain r1 w1 where c: "createTask fetch base ?task w = (r1, w1)"
    by (cases "createTask fetch base ?task w")
  obtain r2 w2 where f: "fetchTasks fetch base w1 = (r2, w2)" by (cases "fetchTasks fetch base w1")
  show "\<exists>r sc. fst (add_task_handler fetch base t d dd w) = Inr r \<and> structuredContent r = Some sc \<and>
      (case createTask fetch base ?task w of
         (Inl e, w1) \<Rightarrow> tasks sc = [] \<and> error sc = Some (error_message e)
       | (Inr created, w1) \<Rightarrow>
           (case fst (fetchTasks fetch base w1) of
              Inl e \<Rightarrow> tasks sc = [] \<and> error sc = Some (error_message e)
            | Inr ts \<Rightarrow> tasks sc = ts \<and> error sc = None))"
  proof (cases r1)
    case (Inl e)
    with c show ?thesis by (simp add: add_task_handler_create_fails error_result_fields)
  next
    case created: (Inr created)
    show ?thesis
    proof (cases r2)
      case (Inl e)
      with c f created show ?thesis
        by (simp add: add_task_handler_refetch_fails error_result_fields)
    next
      case (Inr ts)
      with c f created show ?thesis by (simp add: add_task_handler_succeeds)
    qed
  qed
qed

theorem handlers_never_throw_witness:
  "(\<exists>r sc. fst (list_tasks_handler scripted_fetch example_base [Inr db_down]) = Inr r
      \<and> structuredContent r = Some sc \<and> tasks sc = []
      \<and> error sc = Some ''GetTasks failed: 500 Internal Server Error - db down'')
   \<and> (\<exists>r sc. fst (add_task_handler scripted_fetch example_base ''Test'' [] ''2024-02-02T00:00:00Z''
                    [Inr (ok_response (TaskObject test_task)), Inr db_down]) = Inr r
      \<and> structuredContent r = Some sc \<and> tasks sc = []
      \<and> error sc = Some ''GetTasks failed: 500 Internal Server Error - db down'')"
  using handlers_never_throw [of scripted_fetch example_base "[Inr db_down]"]
    handlers_never_throw [of scripted_fetch example_base
      "[Inr (ok_response (TaskObject test_task)), Inr db_down]" "''Test''" "[]" "''2024-02-02T00:00:00Z''"]
  by (simp add: scripted_fetch_db_down error_message_def
      createTask_ok [where res = "ok_response (TaskObject test_task)"] ok_def ok_response_def)

section \<open>Defaults of \<^verbatim>\<open>Priority\<close> and \<^verbatim>\<open>Status\<close>\<close>

text \<open>
  C2.  When \<^verbatim>\<open>GetTasks\<close> answers with a JSON array, \<^verbatim>\<open>fetchTasks\<close> returns a list of the same
  length in which every task has \<^verbatim>\<open>Priority\<close> and \<^verbatim>\<open>Status\<close> populated; where one of them is
  absent on the wire, the returned task has it set to 0.  The list goes unchanged into the
  structured content of \<^verbatim>\<open>list-tasks\<close>, and every task that \<^verbatim>\<open>add-task\<close> returns (in any
  world \<open>v\<close>) has both fields populated too.
\<close>

theorem fetchTasks_fills_defaults:
  assumes "fetch (get_tasks_request base) w = (Inr res, w')"
    and "ok res"
    and "json_result res = Inr (TaskArray ws)"
  shows "\<exists>ts. fetchTasks fetch base w = (Inr ts, w')
           \<and> length ts = length ws
           \<and> list_all populated ts
           \<and> (\<forall>i<length ws.
                 (Priority (ws ! i) = None \<longrightarrow> Priority (ts ! i) = Some 0)
               \<and> (Status (ws ! i) = None \<longrightarrow> Status (ts ! i) = Some 0))
           \<and> (\<exists>r. list_tasks_handler fetch base w = (Inr r, w')
                 \<and> structuredContent r = Some \<lparr>tasks = ts, error = None\<rparr>)
           \<and> (case fst (add_task_handler fetch base t d dd v) of
                 Inl e \<Rightarrow> False
               | Inr r \<Rightarrow>
                   (case structuredContent r of
                      None \<Rightarrow> False
                    | Some sc \<Rightarrow> list_all populated (tasks sc)))"
proof -
  have f: "fetchTasks fetch base w = (Inr (map fill_defaults ws), w')"
    using fetchTasks_ok [where fetch = fetch, OF assms(1,2)] assms(3) by simp
  have "\<forall>i<length ws.
          (Priority (ws ! i) = None \<longrightarrow> Priority (map fill_defaults ws ! i) = Some 0)
        \<and> (Status (ws ! i) = None \<longrightarrow> Status (map fill_defaults ws ! i) = Some 0)"
    by (simp add: fill_defaults_fields)
  with f add_task_handler_surfaces_populated [of fetch base t d dd v] show ?thesis
    by (simp add: populated_fill_defaults list_tasks_handler_Inr)
qed

theorem fetchTasks_fills_defaults_witness:
  "\<exists>ts. fetchTasks scripted_fetch example_base [Inr (ok_response (TaskArray [buy_milk, walk_dog]))]
           = (Inr ts, [])
     \<and> length ts = 2 \<and> list_all populated ts
     \<and> Priority (ts ! 0) = Some 0 \<and> Status (ts ! 0) = Some 0
     \<and> (\<exists>r. list_tasks_handler scripted_fetch example_base
                [Inr (ok_response (TaskArray [buy_milk, walk_dog]))] = (Inr r, [])
           \<and> structuredContent r = Some \<lparr>tasks = ts, error = None\<rparr>)"
proof -
  let ?res = "ok_response (TaskArray [buy_milk, walk_dog])"
  have a: "scripted_fetch (get_tasks_request example_base) [Inr ?res] = (Inr ?res, [])" by simp
  have b: "ok ?res" by (simp add: ok_def ok_response_def)
  have c: "json_result ?res = Inr (TaskArray [buy_milk, walk_dog])" by (simp add: ok_response_def)
  have d: "Priority ([buy_milk, walk_dog] ! 0) = None \<and> Status ([buy_milk, walk_dog] ! 0) = None"
    by (simp add: buy_milk_def)
  from fetchTasks_fills_defaults
         [where fetch = scripted_fetch and t = "[]" and d = "[]" and dd = "[]" and v = "[]",
          OF a b c] d
  show ?thesis
    by auto
qed

section \<open>Responses that are not ok\<close>

text \<open>
  C3.  On a response whose status is not in 200..299, \<^verbatim>\<open>fetchTasks\<close> and \<^verbatim>\<open>createTask\<close>
  throw an error whose message is the name of the endpoint, the status code in decimal,
  the status text and, after a dash, the body of the response when it is not empty.  When
  the body cannot be read, the message ends with the status text: the call still fails
  with the status information.
\<close>

theorem not_ok_response_fails:
  assumes "fetch req w = (Inr res, w')" and "\<not> ok res"
  shows "(req = get_tasks_request base \<longrightarrow>
            fetchTasks fetch base w =
              (Inl (Error (''GetTasks failed: '' @ string_of_nat (status res) @ '' ''
                            @ statusText res @ error_detail res)), w'))
       \<and> (req = create_task_request base task \<longrightarrow>
            createTask fetch base task w =
              (Inl (Error (''CreateTask failed: '' @ string_of_nat (status res) @ '' ''
                            @ statusText res @ error_detail res)), w'))"
proof (intro conjI impI)
  assume "req = get_tasks_request base"
  with assms show "fetchTasks fetch base w =
      (Inl (Error (''GetTasks failed: '' @ string_of_nat (status res) @ '' ''
                    @ statusText res @ error_detail res)), w')"
    using fetchTasks_not_ok [of fetch base w res w'] by (simp add: failed_message_detail)
next
  assume "req = create_task_request base task"
  with assms show "createTask fetch base task w =
      (Inl (Error (''CreateTask failed: '' @ string_of_nat (status res) @ '' ''
                    @ statusText res @ error_detail res)), w')"
    using createTask_not_ok [of fetch base task w res w'] by (simp add: failed_message_detail)
qed

theorem not_ok_response_fails_witness:
  "fetchTasks scripted_fetch example_base [Inr db_down]
     = (Inl (Error ''GetTasks failed: 500 Internal Server Error - db down''), [])
   \<and> createTask scripted_fetch example_base
        \<lparr>Title = ''Test'', Description = [], Priority = Some 1,
         DueDate = ''2024-02-02T00:00:00Z'', Status = Some 0\<rparr> [Inr unreadable]
     = (Inl (Error ''CreateTask failed: 503 Service Unavailable''), [])"
proof -
  have a: "scripted_fetch (get_tasks_request example_base) [Inr db_down] = (Inr db_down, [])"
    by simp
  have b: "\<not> ok db_down" by (simp add: ok_def db_down_def)
  let ?task = "\<lparr>Title = ''Test'', Description = [], Priority = Some 1,
         DueDate = ''2024-02-02T00:00:00Z'', Status = Some (0::int)\<rparr>"
  have c: "scripted_fetch (create_task_request example_base ?task) [Inr unreadable]
             = (Inr unreadable, [])"
    by simp
  have d: "\<not> ok unreadable" by (simp add: ok_def unreadable_def)
  from not_ok_response_fails [where fetch = scripted_fetch and base = example_base, OF a b]
    not_ok_response_fails [where fetch = scripted_fetch and base = example_base
      and task = ?task, OF c d]
  show ?thesis
    by (simp add: error_detail_def db_down_def unreadable_def string_of_nat_500
        string_of_nat_503)
qed

section \<open>A refetch that fails\<close>

text \<open>
  C5.  When \<^verbatim>\<open>createTask\<close> succeeds and the \<^verbatim>\<open>fetchTasks\<close> after it throws \<open>e\<close>, \<^verbatim>\<open>add-task\<close>
  returns an empty list of tasks and the message of \<open>e\<close>: nothing of the created task is in
  the result, and the result is the very one that a \<^verbatim>\<open>createTask\<close> throwing \<open>e\<close> leads to.
\<close>

theorem refetch_failure_is_plain_failure:
  assumes "createTask fetch base
             \<lparr>Title = t, Description = d, Priority = Some 1, DueDate = dd, Status = Some 0\<rparr> w
           = (Inr created, w1)"
    and "fetchTasks fetch base w1 = (Inl e, w2)"
  shows "add_task_handler fetch base t d dd w =
           (Inr \<lparr>content = [TextContent (error_prefix @ error_message e)],
                 structuredContent = Some \<lparr>tasks = [], error = Some (error_message e)\<rparr>,
                 isError = None\<rparr>, w2)
       \<and> (\<forall>fetch' v v'.
            createTask fetch' base
              \<lparr>Title = t, Description = d, Priority = Some 1, DueDate = dd, Status = Some 0\<rparr> v
            = (Inl e, v') \<longrightarrow>
            fst (add_task_handler fetch' base t d dd v) = fst (add_task_handler fetch base t d dd w))"
proof -
  have r: "add_task_handler fetch base t d dd w = (Inr (error_result e), w2)"
    using assms by (rule add_task_handler_refetch_fails)
  have "error_result e =
          \<lparr>content = [TextContent (error_prefix @ error_message e)],
           structuredContent = Some \<lparr>tasks = [], error = Some (error_message e)\<rparr>,
           isError = None\<rparr>"
    by (simp add: error_result_def Let_def)
  with r show ?thesis
    by (simp add: add_task_handler_create_fails)
qed


theorem refetch_failure_is_plain_failure_witness:
  "add_task_handler scripted_fetch example_base ''Test'' [] ''2024-02-02T00:00:00Z''
       [Inr (ok_response (TaskObject test_task)), Inr db_down]
     = (Inr \<lparr>content = [TextContent (error_prefix
                    @ ''GetTasks failed: 500 Internal Server Error - db down'')],
             structuredContent = Some \<lparr>tasks = [],
               error = Some ''GetTasks failed: 500 Internal Server Error - db down''\<rparr>,
             isError = None\<rparr>, [])
   \<and> fst (add_task_handler scripted_fetch example_base ''Test'' [] ''2024-02-02T00:00:00Z''
            [Inl (Error ''GetTasks failed: 500 Internal Server Error - db down'')])
     = fst (add_task_handler scripted_fetch example_base ''Test'' [] ''2024-02-02T00:00:00Z''
            [Inr (ok_response (TaskObject test_task)), Inr db_down])"
proof -
  let ?task = "\<lparr>Title = ''Test'', Description = [], Priority = Some 1,
         DueDate = ''2024-02-02T00:00:00Z'', Status = Some (0::int)\<rparr>"
  let ?e = "Error ''GetTasks failed: 500 Internal Server Error - db down''"
  have a: "createTask scripted_fetch example_base ?task
             [Inr (ok_response (TaskObject test_task)), Inr db_down]
           = (Inr (TaskObject test_task), [Inr db_down])"
    by (simp add: createTask_ok [where res = "ok_response (TaskObject test_task)"]
        ok_def ok_response_def)
  have b: "fetchTasks scripted_fetch example_base [Inr db_down] = (Inl ?e, [])"
    by (rule scripted_fetch_db_down)
  have c: "createTask scripted_fetch example_base ?task [Inl ?e] = (Inl ?e, [])"
    by (simp add: createTask_rejected)
  note both = refetch_failure_is_plain_failure [where fetch = scripted_fetch, OF a b]
  note first = both [THEN conjunct1]
  note second = both [THEN conjunct2, rule_format, of scripted_fetch, OF c]
  from first second show ?thesis
    by (simp add: error_message_def)
qed

section \<open>Order and fields of the fetched list\<close>

text \<open>
  C6.  When \<^verbatim>\<open>fetchTasks\<close> returns, the remote service answered with a JSON array of the same
  length; position by position, \<^verbatim>\<open>Id\<close>, \<^verbatim>\<open>Title\<close>, \<^verbatim>\<open>Description\<close> and \<^verbatim>\<open>DueDate\<close> are those of
  the wire, and \<^verbatim>\<open>Priority\<close> and \<^verbatim>\<open>Status\<close> are those of the wire when present and 0 when absent.
\<close>

theorem fetchTasks_preserves_order_and_fields:
  assumes "fetchTasks fetch base w = (Inr ts, w')"
  shows "\<exists>res ws. fetch (get_tasks_request base) w = (Inr res, w')
           \<and> json_result res = Inr (TaskArray ws)
           \<and> length ts = length ws
           \<and> (\<forall>i<length ws.
                 Id' (ts ! i) = Id' (ws ! i) \<and> Title (ts ! i) = Title (ws ! i)
               \<and> Description (ts ! i) = Description (ws ! i) \<and> DueDate (ts ! i) = DueDate (ws ! i)
               \<and> Priority (ts ! i) = (case Priority (ws ! i) of None \<Rightarrow> Some 0 | Some p \<Rightarrow> Some p)
               \<and> Status (ts ! i) = (case Status (ws ! i) of None \<Rightarrow> Some 0 | Some s \<Rightarrow> Some s))"
proof -
  from fetchTasks_returns [OF assms] obtain res ws where
    f: "fetch (get_tasks_request base) w = (Inr res, w')" and
    j: "json_result res = Inr (TaskArray ws)" and t: "ts = map fill_defaults ws"
    by blast
  have "\<forall>i<length ws.
          Id' (ts ! i) = Id' (ws ! i) \<and> Title (ts ! i) = Title (ws ! i)
        \<and> Description (ts ! i) = Description (ws ! i) \<and> DueDate (ts ! i) = DueDate (ws ! i)
        \<and> Priority (ts ! i) = (case Priority (ws ! i) of None \<Rightarrow> Some 0 | Some p \<Rightarrow> Some p)
        \<and> Status (ts ! i) = (case Status (ws ! i) of None \<Rightarrow> Some 0 | Some s \<Rightarrow> Some s)"
    unfolding t by (simp add: fill_defaults_fields split: option.split)
  with f j t show ?thesis by auto
qed

theorem fetchTasks_preserves_order_and_fields_witness:
  "fetchTasks scripted_fetch example_base [Inr (ok_response (TaskArray [buy_milk, walk_dog]))]
     = (Inr [\<lparr>Title = ''Buy milk'', Description = [], Priority = Some 0,
              DueDate = ''2024-01-01T00:00:00Z'', Status = Some 0, Id' = 1\<rparr>,
             \<lparr>Title = ''Walk dog'', Description = ''twice'', Priority = Some 2,
              DueDate = ''2024-01-03T00:00:00Z'', Status = Some 1, Id' = 2\<rparr>], [])
   \<and> (\<exists>res ws. scripted_fetch (get_tasks_request example_base)
                   [Inr (ok_response (TaskArray [buy_milk, walk_dog]))] = (Inr res, [])
         \<and> json_result res = Inr (TaskArray ws) \<and> length ws = 2)"
proof -
  have a: "fetchTasks scripted_fetch example_base [Inr (ok_response (TaskArray [buy_milk, walk_dog]))]
     = (Inr [\<lparr>Title = ''Buy milk'', Description = [], Priority = Some 0,
              DueDate = ''2024-01-01T00:00:00Z'', Status = Some 0, Id' = 1\<rparr>,
             \<lparr>Title = ''Walk dog'', Description = ''twice'', Priority = Some 2,
              DueDate = ''2024-01-03T00:00:00Z'', Status = Some 1, Id' = 2\<rparr>], [])"
    by (simp add: scripted_fetch_ok_array fill_defaults_def nullish_coalesce_def buy_milk_def
        walk_dog_def)
  from fetchTasks_preserves_order_and_fields [where fetch = scripted_fetch, OF a] a
  show ?thesis by auto
qed

section \<open>The count message\<close>

text \<open>
  C8, as amended.  When \<^verbatim>\<open>fetchTasks\<close> returns \<open>n\<close> tasks, the text of the result of
  \<^verbatim>\<open>list-tasks\<close> is \<open>n\<close> in decimal (a numeral that reads back as \<open>n\<close>) followed by the fixed
  sentence of the source, which is Japanese for "tasks were shown in the UI": a space, the
  counter word (E4 BB B6), the words for "of tasks" and the object marker, \<^verbatim>\<open>UI\<close> between
  spaces, and "were displayed in" with the full stop (E3 80 82).  The bytes below are the
  UTF-8 of that sentence.  \<open>n\<close> is the number of tasks in the structured content.
\<close>

theorem list_tasks_count_message:
  assumes "fetchTasks fetch base w = (Inr ts, w')"
  shows "list_tasks_handler fetch base w =
           (Inr \<lparr>content =
                   [TextContent
                     (string_of_nat (length ts) @
                      [CHR 0x20, CHR 0xE4, CHR 0xBB, CHR 0xB6, CHR 0xE3, CHR 0x81, CHR 0xAE, CHR 0xE3,
                       CHR 0x82, CHR 0xBF, CHR 0xE3, CHR 0x82, CHR 0xB9, CHR 0xE3, CHR 0x82, CHR 0xAF,
                       CHR 0xE3, CHR 0x82, CHR 0x92, CHR 0x20, CHR 0x55, CHR 0x49, CHR 0x20, CHR 0xE3,
                       CHR 0x81, CHR 0xAB, CHR 0xE8, CHR 0xA1, CHR 0xA8, CHR 0xE7, CHR 0xA4, CHR 0xBA,
                       CHR 0xE3, CHR 0x81, CHR 0x97, CHR 0xE3, CHR 0x81, CHR 0xBE, CHR 0xE3, CHR 0x81,
                       CHR 0x97, CHR 0xE3, CHR 0x81, CHR 0x9F, CHR 0xE3, CHR 0x80, CHR 0x82])],
                 structuredContent = Some \<lparr>tasks = ts, error = None\<rparr>,
                 isError = None\<rparr>, w')
       \<and> decimal_value (string_of_nat (length ts)) = length ts"
  using assms by (simp add: list_tasks_handler_Inr decimal_value_string_of_nat count_suffix_def)

theorem list_tasks_count_message_witness:
  "list_tasks_handler scripted_fetch example_base [Inr (ok_response (TaskArray [buy_milk, walk_dog]))]
     = (Inr \<lparr>content =
               [TextContent
                 [CHR ''2'', CHR 0x20, CHR 0xE4, CHR 0xBB, CHR 0xB6, CHR 0xE3, CHR 0x81, CHR 0xAE,
                  CHR 0xE3, CHR 0x82, CHR 0xBF, CHR 0xE3, CHR 0x82, CHR 0xB9, CHR 0xE3, CHR 0x82,
                  CHR 0xAF, CHR 0xE3, CHR 0x82, CHR 0x92, CHR 0x20, CHR 0x55, CHR 0x49, CHR 0x20,
                  CHR 0xE3, CHR 0x81, CHR 0xAB, CHR 0xE8, CHR 0xA1, CHR 0xA8, CHR 0xE7, CHR 0xA4,
                  CHR 0xBA, CHR 0xE3, CHR 0x81, CHR 0x97, CHR 0xE3, CHR 0x81, CHR 0xBE, CHR 0xE3,
                  CHR 0x81, CHR 0x97, CHR 0xE3, CHR 0x81, CHR 0x9F, CHR 0xE3, CHR 0x80, CHR 0x82]],
             structuredContent = Some \<lparr>tasks = [fill_defaults buy_milk, fill_defaults walk_dog],
                                       error = None\<rparr>,
             isError = None\<rparr>, [])"
proof -
  have a: "fetchTasks scripted_fetch example_base
             [Inr (ok_response (TaskArray [buy_milk, walk_dog]))]
           = (Inr [fill_defaults buy_milk, fill_defaults walk_dog], [])"
    by (simp add: scripted_fetch_ok_array)
  have b: "string_of_nat (Suc (Suc 0)) = ''2''"
    by (simp add: string_of_nat.simps decimal_digit_def)
  from list_tasks_count_message [where fetch = scripted_fetch, OF a] b show ?thesis by simp
qed

text \<open>
  The claim as it was stated gives the text as the count followed by \<^verbatim>\<open> tasks shown\<close>.  For the
  two tasks of the example the text is the numeral and the Japanese sentence, which is not
  \<^verbatim>\<open>2 tasks shown\<close>.
\<close>

theorem list_tasks_text_is_not_tasks_shown:
  "fst (list_tasks_handler scripted_fetch example_base
          [Inr (ok_response (TaskArray [buy_milk, walk_dog]))])
     = Inr \<lparr>content =
              [TextContent
                [CHR ''2'', CHR 0x20, CHR 0xE4, CHR 0xBB, CHR 0xB6, CHR 0xE3, CHR 0x81, CHR 0xAE,
                 CHR 0xE3, CHR 0x82, CHR 0xBF, CHR 0xE3, CHR 0x82, CHR 0xB9, CHR 0xE3, CHR 0x82,
                 CHR 0xAF, CHR 0xE3, CHR 0x82, CHR 0x92, CHR 0x20, CHR 0x55, CHR 0x49, CHR 0x20,
                 CHR 0xE3, CHR 0x81, CHR 0xAB, CHR 0xE8, CHR 0xA1, CHR 0xA8, CHR 0xE7, CHR 0xA4,
                 CHR 0xBA, CHR 0xE3, CHR 0x81, CHR 0x97, CHR 0xE3, CHR 0x81, CHR 0xBE, CHR 0xE3,
                 CHR 0x81, CHR 0x97, CHR 0xE3, CHR 0x81, CHR 0x9F, CHR 0xE3, CHR 0x80, CHR 0x82]],
            structuredContent = Some \<lparr>tasks = [fill_defaults buy_milk, fill_defaults walk_dog],
                                      error = None\<rparr>,
            isError = None\<rparr>
   \<and> [CHR ''2'', CHR 0x20, CHR 0xE4, CHR 0xBB, CHR 0xB6, CHR 0xE3, CHR 0x81, CHR 0xAE,
        CHR 0xE3, CHR 0x82, CHR 0xBF, CHR 0xE3, CHR 0x82, CHR 0xB9, CHR 0xE3, CHR 0x82,
        CHR 0xAF, CHR 0xE3, CHR 0x82, CHR 0x92, CHR 0x20, CHR 0x55, CHR 0x49, CHR 0x20,
        CHR 0xE3, CHR 0x81, CHR 0xAB, CHR 0xE8, CHR 0xA1, CHR 0xA8, CHR 0xE7, CHR 0xA4,
        CHR 0xBA, CHR 0xE3, CHR 0x81, CHR 0x97, CHR 0xE3, CHR 0x81, CHR 0xBE, CHR 0xE3,
        CHR 0x81, CHR 0x97, CHR 0xE3, CHR 0x81, CHR 0x9F, CHR 0xE3, CHR 0x80, CHR 0x82]
       \<noteq> ''2 tasks shown''"
proof -
  have a: "fetchTasks scripted_fetch example_base
             [Inr (ok_response (TaskArray [buy_milk, walk_dog]))]
           = (Inr [fill_defaults buy_milk, fill_defaults walk_dog], [])"
    by (simp add: scripted_fetch_ok_array)
  have b: "string_of_nat (Suc (Suc 0)) = ''2''"
    by (simp add: string_of_nat.simps decimal_digit_def)
  from list_tasks_handler_Inr [where fetch = scripted_fetch, OF a] b show ?thesis
    by (simp add: count_suffix_def)
qed

section \<open>What \<^verbatim>\<open>add-task\<close> returns on success\<close>

text \<open>
  C4, as amended.  \<^verbatim>\<open>add-task\<close> called with \<open>Title\<close>, \<open>Description\<close>, \<open>DueDate\<close> posts to
  \<^verbatim>\<open>CreateTask\<close> the JSON document that wraps, under the key \<^verbatim>\<open>Task\<close>, a task with these three
  fields, \<^verbatim>\<open>Priority\<close> 1 and \<^verbatim>\<open>Status\<close> 0; when that call succeeds it requests \<^verbatim>\<open>GetTasks\<close>, and
  when that succeeds with an array, the tasks of the structured content are exactly the
  refetched list (defaults filled in) and the error is \<^verbatim>\<open>null\<close>.  The list holds a task with
  the submitted title exactly when the array that the remote service answered holds one.
\<close>

theorem add_task_returns_refetched_list:
  assumes "fetch \<lparr>url = base @ ''/CreateTask'', http_method = ''POST'',
                  headers = [(''Content-Type'', ''application/json'')],
                  body = Some (JObject [(''Task'',
                    JObject [(''Title'', JString t), (''Description'', JString d),
                             (''Priority'', JNumber 1), (''DueDate'', JString dd),
                             (''Status'', JNumber 0)])])\<rparr> w
             = (Inr res1, w1)"
    and "ok res1"
    and "json_result res1 = Inr created"
    and "fetch \<lparr>url = base @ ''/GetTasks'', http_method = ''GET'', headers = [], body = None\<rparr> w1
           = (Inr res2, w2)"
    and "ok res2"
    and "json_result res2 = Inr (TaskArray ws)"
  shows "add_task_handler fetch base t d dd w =
           (Inr \<lparr>content = [TextContent (added_prefix @ t @ added_suffix)],
                 structuredContent = Some \<lparr>tasks = map fill_defaults ws, error = None\<rparr>,
                 isError = None\<rparr>, w2)
       \<and> list_ex (\<lambda>x. Title x = t) (map fill_defaults ws) = list_ex (\<lambda>x. Title x = t) ws"
proof -
  let ?task = "\<lparr>Title = t, Description = d, Priority = Some 1, DueDate = dd, Status = Some (0::int)\<rparr>"
  have c: "createTask fetch base ?task w = (Inr created, w1)"
    using createTask_ok [of fetch base ?task w res1 w1] assms(1,2,3)
    by (simp add: create_task_request_new)
  have f: "fetchTasks fetch base w1 = (Inr (map fill_defaults ws), w2)"
    using fetchTasks_ok [of fetch base w1 res2 w2] assms(4,5,6)
    by (simp add: get_tasks_request_def)
  from add_task_handler_succeeds [OF c f] show ?thesis
    by (simp add: list_ex_title_fill_defaults)
qed

theorem add_task_returns_refetched_list_witness:
  "add_task_handler scripted_fetch example_base ''Test'' [] ''2024-02-02T00:00:00Z''
     [Inr (ok_response (TaskObject test_task)),
      Inr (ok_response (TaskArray [buy_milk, test_task]))]
   = (Inr \<lparr>content = [TextContent (added_prefix @ ''Test'' @ added_suffix)],
           structuredContent = Some \<lparr>tasks = [fill_defaults buy_milk, fill_defaults test_task],
                                     error = None\<rparr>,
           isError = None\<rparr>, [])
   \<and> list_ex (\<lambda>x. Title x = ''Test'') [fill_defaults buy_milk, fill_defaults test_task]"
proof -
  let ?r1 = "ok_response (TaskObject test_task)"
  let ?r2 = "ok_response (TaskArray [buy_milk, test_task])"
  have a: "scripted_fetch \<lparr>url = example_base @ ''/CreateTask'', http_method = ''POST'',
                  headers = [(''Content-Type'', ''application/json'')],
                  body = Some (JObject [(''Task'',
                    JObject [(''Title'', JString ''Test''), (''Description'', JString []),
                             (''Priority'', JNumber 1), (''DueDate'', JString ''2024-02-02T00:00:00Z''),
                             (''Status'', JNumber 0)])])\<rparr> [Inr ?r1, Inr ?r2]
             = (Inr ?r1, [Inr ?r2])" by simp
  have b: "ok ?r1" by (simp add: ok_def ok_response_def)
  have c: "json_result ?r1 = Inr (TaskObject test_task)" by (simp add: ok_response_def)
  have d: "scripted_fetch \<lparr>url = example_base @ ''/GetTasks'', http_method = ''GET'', headers = [], body = None\<rparr>
             [Inr ?r2] = (Inr ?r2, [])" by simp
  have e: "ok ?r2" by (simp add: ok_def ok_response_def)
  have f: "json_result ?r2 = Inr (TaskArray [buy_milk, test_task])" by (simp add: ok_response_def)
  from add_task_returns_refetched_list [where fetch = scripted_fetch, OF a b c d e f]
  show ?thesis
    by (simp add: test_task_def)
qed

text \<open>
  The claim as it was stated, that the returned list always holds a task with the submitted
  title, fails when the remote service creates the task and then answers \<^verbatim>\<open>GetTasks\<close> without
  it: the handler reports success with the list it was given.
\<close>

theorem add_task_title_not_refetched:
  "add_task_handler scripted_fetch example_base ''Test'' [] ''2024-02-02T00:00:00Z''
     [Inr (ok_response (TaskObject test_task)), Inr (ok_response (TaskArray [buy_milk]))]
   = (Inr \<lparr>content = [TextContent (added_prefix @ ''Test'' @ added_suffix)],
           structuredContent = Some \<lparr>tasks =
             [\<lparr>Title = ''Buy milk'', Description = [], Priority = Some 0,
               DueDate = ''2024-01-01T00:00:00Z'', Status = Some 0, Id' = 1\<rparr>], error = None\<rparr>,
           isError = None\<rparr>, [])"
proof -
  let ?task = "\<lparr>Title = ''Test'', Description = [], Priority = Some 1,
         DueDate = ''2024-02-02T00:00:00Z'', Status = Some (0::int)\<rparr>"
  have a: "createTask scripted_fetch example_base ?task
             [Inr (ok_response (TaskObject test_task)), Inr (ok_response (TaskArray [buy_milk]))]
           = (Inr (TaskObject test_task), [Inr (ok_response (TaskArray [buy_milk]))])"
    by (simp add: createTask_ok [where res = "ok_response (TaskObject test_task)"]
        ok_def ok_response_def)
  have b: "fetchTasks scripted_fetch example_base [Inr (ok_response (TaskArray [buy_milk]))]
           = (Inr [fill_defaults buy_milk], [])"
    by (simp add: scripted_fetch_ok_array)
  from add_task_handler_succeeds [where fetch = scripted_fetch, OF a b] show ?thesis
    by (simp add: fill_defaults_def nullish_coalesce_def buy_milk_def)
qed

section \<open>Tool results in the page\<close>

text \<open>
  C7, as amended.  When a tool result has a truthy \<^verbatim>\<open>isError\<close>, or a structured content whose
  \<^verbatim>\<open>error\<close> is a string that is not empty, \<^verbatim>\<open>handleToolResult\<close> shows a status message (text
  set, element displayed, a timer of 2000 ms pending to hide it) and leaves the rendered
  list and the count as they were.  Otherwise, when the structured content has a list of
  tasks, the count and the rendered list are set from that list alone and the status
  element is hidden.
\<close>

theorem handleToolResult_error_or_replace:
  "(truthy_bool (isError result) \<or> truthy_string (Option.bind (structuredContent result) error) \<longrightarrow>
      (\<exists>message. handleToolResult env result d =
          d\<lparr>statusEl_textContent := message, statusEl_style_display := ''block'',
            timeouts := timeouts d @ [2000]\<rparr>)
      \<and> taskListEl_innerHTML (handleToolResult env result d) = taskListEl_innerHTML d
      \<and> countEl_textContent (handleToolResult env result d) = countEl_textContent d)
   \<and> (\<not> truthy_bool (isError result)
        \<and> \<not> truthy_string (Option.bind (structuredContent result) error) \<longrightarrow>
      (\<forall>sc ts. structuredContent result = Some sc \<and> tasks sc = Some ts \<longrightarrow>
         handleToolResult env result d =
           d\<lparr>countEl_textContent := string_of_nat (length ts) @ count_unit,
             taskListEl_innerHTML :=
               (if ts = [] then empty_placeholder else concat (map (render_task env) ts)),
             statusEl_style_display := ''none''\<rparr>))"
proof (intro conjI impI allI)
  assume m: "truthy_bool (isError result) \<or> truthy_string (Option.bind (structuredContent result) error)"
  then obtain message where h: "handleToolResult env result d = showStatus message d"
    using handleToolResult_isError [of result env d] handleToolResult_error [of result env d]
    by blast
  then show "\<exists>message. handleToolResult env result d =
          d\<lparr>statusEl_textContent := message, statusEl_style_display := ''block'',
            timeouts := timeouts d @ [2000]\<rparr>"
    by (auto simp: showStatus_def)
  from h show "taskListEl_innerHTML (handleToolResult env result d) = taskListEl_innerHTML d"
    by (simp add: showStatus_fields)
  from h show "countEl_textContent (handleToolResult env result d) = countEl_textContent d"
    by (simp add: showStatus_fields)
next
  fix sc ts
  assume n: "\<not> truthy_bool (isError result)
        \<and> \<not> truthy_string (Option.bind (structuredContent result) error)"
    and p: "structuredContent result = Some sc \<and> tasks sc = Some ts"
  then show "handleToolResult env result d =
           d\<lparr>countEl_textContent := string_of_nat (length ts) @ count_unit,
             taskListEl_innerHTML :=
               (if ts = [] then empty_placeholder else concat (map (render_task env) ts)),
             statusEl_style_display := ''none''\<rparr>"
    using handleToolResult_no_error [of result env d] by (simp add: renderTasks_eq)
qed

theorem handleToolResult_error_or_replace_witness:
  "handleToolResult example_browser
     \<lparr>content = [],
      structuredContent = Some \<lparr>tasks = Some [], error = Some ''GetTasks failed: 500 ''\<rparr>,
      isError = None\<rparr> example_page
   = example_page\<lparr>statusEl_textContent := error_prefix @ ''GetTasks failed: 500 '',
                  statusEl_style_display := ''block'', timeouts := [2000]\<rparr>
   \<and> handleToolResult example_browser
       \<lparr>content = [], structuredContent = Some \<lparr>tasks = Some [shown_task], error = None\<rparr>,
        isError = None\<rparr> example_page
     = example_page\<lparr>countEl_textContent := ''1'' @ count_unit,
                    taskListEl_innerHTML := render_task example_browser shown_task,
                    statusEl_style_display := ''none''\<rparr>"
proof -
  let ?bad = "\<lparr>content = [],
      structuredContent = Some \<lparr>tasks = Some ([] :: ui_task list), error = Some ''GetTasks failed: 500 ''\<rparr>,
      isError = None\<rparr>"
  let ?good = "\<lparr>content = [], structuredContent = Some \<lparr>tasks = Some [shown_task], error = None\<rparr>,
        isError = None\<rparr>"
  note bad = handleToolResult_error_or_replace [of ?bad example_browser example_page,
      THEN conjunct1, rule_format]
  note good = handleToolResult_error_or_replace [of ?good example_browser example_page,
      THEN conjunct2, rule_format, of _ "[shown_task]"]
  have b: "truthy_bool (isError ?bad) \<or> truthy_string (Option.bind (structuredContent ?bad) error)"
    by (simp add: truthy_string_def)
  have g: "\<not> truthy_bool (isError ?good)
        \<and> \<not> truthy_string (Option.bind (structuredContent ?good) error)"
    by (simp add: truthy_string_def truthy_bool_def)
  have one: "string_of_nat (Suc 0) = ''1''" by (simp add: string_of_nat.simps decimal_digit_def)
  have first: "handleToolResult example_browser ?bad example_page
     = example_page\<lparr>statusEl_textContent := error_prefix @ ''GetTasks failed: 500 '',
                  statusEl_style_display := ''block'', timeouts := [2000]\<rparr>"
    using bad [OF b]
    by (simp add: handleToolResult_def truthy_bool_def truthy_string_def showStatus_def
        template_text_def example_page_def)
  have second: "handleToolResult example_browser ?good example_page
     = example_page\<lparr>countEl_textContent := ''1'' @ count_unit,
                    taskListEl_innerHTML := render_task example_browser shown_task,
                    statusEl_style_display := ''none''\<rparr>"
    using good [OF g] by (simp add: one)
  from first second show ?thesis by simp
qed

text \<open>
  The claim as it was stated counts every \<^verbatim>\<open>error\<close> that is not \<^verbatim>\<open>null\<close> as an error marker.
  The empty string is not \<^verbatim>\<open>null\<close>, and with it the list is replaced and no message is shown.
\<close>

theorem handleToolResult_empty_error_replaces:
  "handleToolResult example_browser
     \<lparr>content = [], structuredContent = Some \<lparr>tasks = Some [], error = Some []\<rparr>,
      isError = None\<rparr> example_page
   = example_page\<lparr>countEl_textContent := ''0'' @ count_unit,
                  taskListEl_innerHTML := empty_placeholder,
                  statusEl_style_display := ''none''\<rparr>
   \<and> taskListEl_innerHTML example_page = ''<p>old</p>''
   \<and> empty_placeholder \<noteq> ''<p>old</p>''
   \<and> statusEl_textContent example_page = []"
proof -
  have z: "string_of_nat 0 = ''0''" by (simp add: string_of_nat.simps decimal_digit_def)
  show ?thesis
    by (simp add: handleToolResult_def truthy_bool_def truthy_string_def renderTasks_eq z
        example_page_def empty_placeholder_def)
qed

section \<open>Submitting a blank title\<close>

text \<open>
  C9.  When the title input is empty after trimming, \<^verbatim>\<open>addTask\<close> returns at once: the page is
  exactly as before (inputs not cleared, no status message, no timer, rendered list
  unchanged) and no call of the \<^verbatim>\<open>add-task\<close> tool is made.
\<close>

theorem blank_title_is_no_op:
  assumes "trim (titleInput_value d) = []"
  shows "addTask env d = (d, Returned)"
  using assms by (simp add: addTask_def Let_def)

theorem blank_title_is_no_op_witness:
  "trim (titleInput_value example_page) = []
   \<and> addTask example_browser example_page = (example_page, Returned)"
proof -
  have a: "trim (titleInput_value example_page) = []"
    by (simp add: example_page_def trim_def is_ws1_def is_ws2_def is_ws3_def)
  from blank_title_is_no_op [OF a] a show ?thesis by simp
qed

section \<open>An empty error string\<close>

text \<open>
  C10, as amended.  For a tool result whose \<^verbatim>\<open>isError\<close> is not truthy and whose structured
  content has the empty string as \<^verbatim>\<open>error\<close>, \<^verbatim>\<open>handleToolResult\<close> shows no status message; when
  a list of tasks is present it replaces the rendered list and hides the status element,
  and otherwise the page is left as it was.
\<close>

theorem empty_error_is_success:
  assumes "\<not> truthy_bool (isError result)"
    and "structuredContent result = Some sc"
    and "error sc = Some []"
  shows "handleToolResult env result d =
           (case tasks sc of
              Some ts \<Rightarrow>
                d\<lparr>countEl_textContent := string_of_nat (length ts) @ count_unit,
                  taskListEl_innerHTML :=
                    (if ts = [] then empty_placeholder else concat (map (render_task env) ts)),
                  statusEl_style_display := ''none''\<rparr>
            | None \<Rightarrow> d)
       \<and> statusEl_textContent (handleToolResult env result d) = statusEl_textContent d
       \<and> timeouts (handleToolResult env result d) = timeouts d"
proof -
  have "\<not> truthy_string (Option.bind (structuredContent result) error)"
    using assms(2,3) by (simp add: truthy_string_def)
  from handleToolResult_no_error [OF assms(1) this, of env d] assms(2) show ?thesis
    by (simp add: renderTasks_eq split: option.split)
qed

theorem empty_error_is_success_witness:
  "handleToolResult example_browser
     \<lparr>content = [], structuredContent = Some \<lparr>tasks = Some [shown_task], error = Some []\<rparr>,
      isError = Some False\<rparr> example_page
   = example_page\<lparr>countEl_textContent := ''1'' @ count_unit,
                  taskListEl_innerHTML := render_task example_browser shown_task,
                  statusEl_style_display := ''none''\<rparr>"
proof -
  let ?r = "\<lparr>content = [], structuredContent = Some \<lparr>tasks = Some [shown_task], error = Some []\<rparr>,
      isError = Some False\<rparr>"
  have a: "\<not> truthy_bool (isError ?r)" by (simp add: truthy_bool_def)
  have b: "structuredContent ?r = Some \<lparr>tasks = Some [shown_task], error = Some []\<rparr>" by simp
  have c: "error \<lparr>tasks = Some [shown_task], error = Some []\<rparr> = Some []" by simp
  have one: "string_of_nat (Suc 0) = ''1''" by (simp add: string_of_nat.simps decimal_digit_def)
  from empty_error_is_success [OF a b c, of example_browser example_page] show ?thesis
    by (simp add: one)
qed

text \<open>
  The claim as it was stated speaks of every result whose \<^verbatim>\<open>error\<close> is the empty string.  With
  \<^verbatim>\<open>isError\<close> set, the first check of \<^verbatim>\<open>handleToolResult\<close> shows the error status and returns
  before \<^verbatim>\<open>error\<close> is looked at.
\<close>

theorem empty_error_with_isError_is_error:
  "handleToolResult example_browser
     \<lparr>content = [], structuredContent = Some \<lparr>tasks = Some [shown_task], error = Some []\<rparr>,
      isError = Some True\<rparr> example_page
   = example_page\<lparr>statusEl_textContent := msg_error_occurred,
                  statusEl_style_display := ''block'', timeouts := [2000]\<rparr>"
  by (simp add: handleToolResult_def truthy_bool_def showStatus_def example_page_def)

end
